theory Spec2Isabelle
  imports Complex_Main "HOL-Library.Char_ord" "HOL-Library.List_Lexorder"
begin

section \<open>Housing affordability clustering: the scoring endpoint and the batch pipeline\<close>

text \<open>
  Python floats are modelled as \<^typ>\<open>real\<close>: the arithmetic is exact and the values
  \<open>nan\<close> and \<open>inf\<close> do not exist in the model. Library calls whose code is not part
  of the repository (\<open>float\<close> on a string, \<open>str\<close>, the fitted scaler and k-means
  model, the silhouette score, the correlation matrix) are parameters.
\<close>

subsection \<open>JSON payloads and Python's \<open>float\<close>\<close>

text \<open>
  A decoded JSON value. A number written without fraction or exponent is a Python
  \<open>int\<close> of any size (\<open>JInt\<close>), any other number a float (\<open>JNum\<close>).
\<close>

datatype json = JNull | JBool bool | JInt int | JNum real | JStr string | JArr "json list" | JObj "(string \<times> json) list"

datatype exn = ValueError | TypeError | OverflowError

text \<open>
  \<open>float\<close> of an \<open>int\<close> rounds to the nearest double and raises \<open>OverflowError\<close>
  when that would be \<open>2 ^ 1024\<close> or more in absolute value.
\<close>

definition float_overflow_bound :: int where
  "float_overflow_bound = 2 ^ 1024 - 2 ^ 970"

text \<open>The decoded JSON body of a request: \<open>None\<close> is an absent key.\<close>

record request =
  income :: "json option"
  cost :: "json option"
  age :: "json option"
  bedrooms :: "json option"

text \<open>
  What \<open>app.py\<close> takes from its surroundings: \<open>str_to_float\<close> is Python's \<open>float\<close> on a
  string (\<open>None\<close> where it raises \<open>ValueError\<close>), \<open>py_str\<close> the text an f-string
  gives a value, \<open>artifacts\<close> the loaded scaler and model (\<open>None\<close> when either global is
  \<open>None\<close>) as the composition \<open>int(model.predict(scaler.transform([vec]))[0])\<close>, which
  yields \<open>None\<close> where the libraries raise.
\<close>

record env =
  str_to_float :: "string \<Rightarrow> real option"
  py_str :: "json \<Rightarrow> string"
  artifacts :: "(real list \<Rightarrow> int option) option"

fun py_float :: "env \<Rightarrow> json \<Rightarrow> exn + real" where
  "py_float e (JNum r) = Inr r"
| "py_float e (JInt n) = (if \<bar>n\<bar> \<ge> float_overflow_bound then Inl OverflowError else Inr (of_int n))"
| "py_float e (JBool b) = Inr (if b then 1 else 0)"
| "py_float e (JStr s) = (case str_to_float e s of None \<Rightarrow> Inl ValueError | Some r \<Rightarrow> Inr r)"
| "py_float e JNull = Inl TypeError"
| "py_float e (JArr xs) = Inl TypeError"
| "py_float e (JObj kvs) = Inl TypeError"

text \<open>\<open>data.get(key, default)\<close> and \<open>data.get(key)\<close>.\<close>

definition get_default :: "json option \<Rightarrow> json \<Rightarrow> json" where
  "get_default v d = (case v of None \<Rightarrow> d | Some j \<Rightarrow> j)"

definition get_none :: "json option \<Rightarrow> json" where
  "get_none v = (case v of None \<Rightarrow> JNull | Some j \<Rightarrow> j)"

subsection \<open>Age validation (\<open>app.py\<close>, lines 94 to 116)\<close>

definition AGE_MEDIAN :: real where
  "AGE_MEDIAN = 35"

record age_result =
  final_age :: real
  age_anomaly :: bool
  age_log :: string

text \<open>
  Only \<open>ValueError\<close> is caught by the inner \<open>try\<close>; any other exception of
  \<open>float(raw_age)\<close>, \<open>TypeError\<close> or \<open>OverflowError\<close>, leaves the block and reaches
  the handler of the whole request.
\<close>

definition validate_age :: "env \<Rightarrow> json \<Rightarrow> exn + age_result" where
  "validate_age e raw_age =
     (if raw_age = JNull \<or> raw_age = JStr ''''
      then Inr \<lparr>final_age = AGE_MEDIAN, age_anomaly = False, age_log = ''LOG: age_defaulted_missing''\<rparr>
      else (case py_float e raw_age of
              Inr parsed_age \<Rightarrow>
                (if parsed_age < 18 \<or> parsed_age > 110
                 then Inr \<lparr>final_age = AGE_MEDIAN, age_anomaly = True, age_log = ''LOG: age_out_of_range''\<rparr>
                 else Inr \<lparr>final_age = parsed_age, age_anomaly = False, age_log = []\<rparr>)
            | Inl ValueError \<Rightarrow>
                Inr \<lparr>final_age = AGE_MEDIAN, age_anomaly = False, age_log = ''LOG: age_defaulted_missing''\<rparr>
            | Inl TypeError \<Rightarrow> Inl TypeError
            | Inl OverflowError \<Rightarrow> Inl OverflowError))"

subsection \<open>Feature construction on the request path (\<open>app.py\<close>, lines 119 to 157)\<close>

definition build_features :: "real \<Rightarrow> real \<Rightarrow> real \<Rightarrow> real \<Rightarrow> real list \<times> real" where
  "build_features inc cst ag beds =
     (let burden = (cst * 12) / max inc 1;
          val_est = cst * 12 * 15;
          fmr_est = 1100;
          rooms_est = beds + 2;
          status = (if burden < 0.3 then 1 else (if burden \<le> 0.5 then 2 else 3));
          ami_ratio = inc / 70000;
          ami_cat = (if ami_ratio < 0.3 then 1
                     else (if ami_ratio < 0.5 then 2 else (if ami_ratio < 0.8 then 3 else 4)));
          rent_own = (if inc > 65000 then 1 else 2);
          struct_type = (if inc > 65000 then 1 else 2);
          vec = [inc, cst, val_est, fmr_est, burden, status, ag, 2, beds, rooms_est,
                 struct_type, rent_own, 3, 1, ami_cat]
      in (vec, burden))"

subsection \<open>The policy table (\<open>app.py\<close>, lines 173 to 190)\<close>

record policy_entry =
  label :: string
  policy :: string

definition cluster_policy_map :: "int \<rightharpoonup> policy_entry" where
  "cluster_policy_map = map_of
     [(0, \<lparr>label = ''Middle-Income Stable'',
            policy = ''Workforce housing support, rent stabilization, first-time homebuyer assistance.''\<rparr>),
      (1, \<lparr>label = ''Low-Income Severely Burdened'',
            policy = ''Immediate rent subsidies, eviction prevention, emergency housing assistance.''\<rparr>),
      (2, \<lparr>label = ''High-Income Secure'',
            policy = ''Market-rate housing development, inclusionary zoning, cross-subsidy for affordable housing.''\<rparr>),
      (3, \<lparr>label = ''Extremely Low-Income / No Income'',
            policy = ''Emergency shelter, supportive housing, income verification and benefits enrollment.''\<rparr>)]"

subsection \<open>The scoring endpoint (\<open>app.py\<close>, \<open>predict\<close>)\<close>

text \<open>The three ways the endpoint answers with an error, and their HTTP status.\<close>

datatype error = ModelNotLoaded | InvalidCluster int | RequestFailed

fun http_status :: "error \<Rightarrow> nat" where
  "http_status ModelNotLoaded = 500"
| "http_status (InvalidCluster c) = 500"
| "http_status RequestFailed = 400"

text \<open>The flat JSON object of a successful answer: exactly these six keys.\<close>

record prediction =
  cluster :: int
  cost_burden_ratio :: real
  cost_burden_label :: string
  recommendation :: string
  anomaly_flag :: bool
  anomaly_reasons :: "string list"

text \<open>Step 1 of \<open>predict\<close>: the four inputs, or the exception that ends the request.\<close>

definition parse_inputs :: "env \<Rightarrow> request \<Rightarrow> exn + (real \<times> real \<times> real \<times> json \<times> age_result)" where
  "parse_inputs e data =
     (case py_float e (get_default (income data) (JNum 50000)) of
        Inl x \<Rightarrow> Inl x
      | Inr income_input \<Rightarrow>
     (case py_float e (get_default (cost data) (JNum 1000)) of
        Inl x \<Rightarrow> Inl x
      | Inr cost_input \<Rightarrow>
     (case py_float e (get_default (bedrooms data) (JNum 3)) of
        Inl x \<Rightarrow> Inl x
      | Inr bedrooms_input \<Rightarrow>
     (let raw_age = get_none (age data) in
      case validate_age e raw_age of
        Inl x \<Rightarrow> Inl x
      | Inr a \<Rightarrow> Inr (income_input, cost_input, bedrooms_input, raw_age, a)))))"

text \<open>Steps 5 and 6: the anomaly list and the label, from the primary result alone.\<close>

definition possible_monthly :: "real \<Rightarrow> real \<Rightarrow> real \<Rightarrow> bool" where
  "possible_monthly safe_income safe_cost primary_burden =
     (safe_income < 6000 \<and> safe_cost \<ge> 800 \<and> primary_burden > 2.0)"

definition build_anomalies :: "env \<Rightarrow> json \<Rightarrow> bool \<Rightarrow> bool \<Rightarrow> string list" where
  "build_anomalies e raw_age age_anom monthly =
     (if age_anom then [''Age '' @ py_str e raw_age @ '' invalid (out of range). used median.''] else [])
     @ (if monthly then [''Potential monthly income entry detected.''] else [])"

definition predict :: "env \<Rightarrow> request \<Rightarrow> error + prediction" where
  "predict e data =
     (case artifacts e of
        None \<Rightarrow> Inl ModelNotLoaded
      | Some assign \<Rightarrow>
     (case parse_inputs e data of
        Inl x \<Rightarrow> Inl RequestFailed
      | Inr (safe_income, safe_cost, safe_beds, raw_age, a) \<Rightarrow>
     (let (primary_vec, primary_burden) = build_features safe_income safe_cost (final_age a) safe_beds in
      case assign primary_vec of
        None \<Rightarrow> Inl RequestFailed
      | Some primary_cluster \<Rightarrow>
     (case cluster_policy_map primary_cluster of
        None \<Rightarrow> Inl (InvalidCluster primary_cluster)
      | Some mapping \<Rightarrow>
     (let recommendation = label mapping @ '': '' @ policy mapping;
          anomalies = build_anomalies e raw_age (age_anomaly a)
                        (possible_monthly safe_income safe_cost primary_burden);
          lbl = (if primary_vec ! 4 > 0.3 then ''High'' else ''Affordable'')
      in Inr \<lparr>cluster = primary_cluster,
              cost_burden_ratio = primary_burden,
              cost_burden_label = lbl,
              recommendation = recommendation,
              anomaly_flag = (length anomalies > 0),
              anomaly_reasons = anomalies\<rparr>)))))"

subsection \<open>The offline re-implementation (\<open>test_prediction.py\<close>, \<open>predict_logic\<close>)\<close>

record logic_result =
  logic_cluster :: int
  logic_cost_burden_ratio :: real
  logic_cost_burden_label :: string
  logic_anomaly_flag :: bool
  logic_anomaly_reasons :: "string list"

text \<open>
  \<open>NotFound\<close> is the \<open>return None\<close> after \<open>FileNotFoundError\<close>; \<open>Raised\<close> is an
  exception of the scaler or the model, which this function does not catch.
\<close>

datatype logic_outcome = NotFound | Raised | Returned logic_result

definition predict_logic :: "(real list \<Rightarrow> int option) option \<Rightarrow> real \<Rightarrow> real \<Rightarrow> real \<Rightarrow> real \<Rightarrow> logic_outcome" where
  "predict_logic loaded income_v cost_v age_v bedrooms_v =
     (case loaded of
        None \<Rightarrow> NotFound
      | Some assign \<Rightarrow>
     (let burden = (cost_v * 12) / max income_v 1;
          lbl = (if burden > 2.0 then ''Extreme burden''
                 else if burden > 0.5 then ''Severely burdened''
                 else if burden > 0.3 then ''Moderately burdened''
                 else ''Affordable'');
          anomalies = (if burden > 2.0 then [''Extremely high cost burden (>200%)''] else [])
                    @ (if income_v \<le> 6000 then [''Extremely low income (<= $6000)''] else []);
          status_input = (if burden < 0.3 then 1 else (if burden \<le> 0.5 then 2 else 3));
          features = [income_v, cost_v, 0, 1000, burden, status_input, age_v, 2, bedrooms_v, 5, 1, 2, 1, 1, 4]
      in case assign features of
           None \<Rightarrow> Raised
         | Some c \<Rightarrow> Returned \<lparr>logic_cluster = c,
                               logic_cost_burden_ratio = burden,
                               logic_cost_burden_label = lbl,
                               logic_anomaly_flag = (length anomalies > 0),
                               logic_anomaly_reasons = anomalies\<rparr>))"

subsection \<open>Derived metrics of the training corpus (\<open>clean_data.py\<close>, lines 96 to 117)\<close>

text \<open>
  One row of the two derived columns: \<open>replace(0, 1)\<close> on the income, the division, and
  \<open>clip(upper=3.0)\<close>; then \<open>np.select\<close> with its three conditions and default 1.
\<close>

definition training_cost_burden_ratio :: "real \<Rightarrow> real \<Rightarrow> real" where
  "training_cost_burden_ratio zinc2 costmed =
     (let income = (if zinc2 = 0 then 1 else zinc2)
      in min ((costmed * 12) / income) 3.0)"

definition training_affordability_status :: "real \<Rightarrow> real" where
  "training_affordability_status r =
     (if r < 0.3 then 1
      else if r \<ge> 0.3 \<and> r \<le> 0.5 then 2
      else if r > 0.5 then 3
      else 1)"

text \<open>The column as a whole: all zeros over the \<open>n\<close> rows when either source column is absent.\<close>

definition cost_burden_ratio_column :: "real list option \<Rightarrow> real list option \<Rightarrow> nat \<Rightarrow> real list" where
  "cost_burden_ratio_column costmed_col zinc2_col n =
     (case (costmed_col, zinc2_col) of
        (Some cs, Some zs) \<Rightarrow> map (\<lambda>(c, z). training_cost_burden_ratio z c) (zip cs zs)
      | _ \<Rightarrow> replicate n 0)"

subsection \<open>Missing values (\<open>clean_data.py\<close>, lines 34 to 49)\<close>


definition dropna :: "'a option list \<Rightarrow> 'a list" where
  "dropna col = List.map_filter id col"


text \<open>
  pandas' \<open>Series.median\<close>: over the non-missing values, the middle one of the sorted
  values, or the mean of the two middle ones; missing (\<open>None\<close>) when there is none.
\<close>

definition median :: "real option list \<Rightarrow> real option" where
  "median col =
     (let s = sort (dropna col); n = length s
      in if n = 0 then None
         else if odd n then Some (s ! (n div 2))
         else Some ((s ! (n div 2 - 1) + s ! (n div 2)) / 2))"










subsection \<open>Correlation filter (\<open>refine_data.py\<close>, lines 35 to 78)\<close>








subsection \<open>Search for the cluster count (\<open>run_analysis.py\<close>, lines 30 to 65)\<close>

definition K_range :: "nat list" where
  "K_range = [2..<11]"

definition sample_size :: "nat \<Rightarrow> nat" where
  "sample_size len_X = min 10000 len_X"

text \<open>
  \<open>fit k\<close> is the k-means model fitted on the full matrix with the fixed seed,
  \<open>inertia_of\<close> its inertia and \<open>silhouette\<close> the score of its labels on the sample.
  The loop appends one entry to each list per candidate.
\<close>

fun search_loop :: "(nat \<Rightarrow> 'm) \<Rightarrow> ('m \<Rightarrow> real) \<Rightarrow> ('m \<Rightarrow> real) \<Rightarrow> nat list
    \<Rightarrow> real list \<times> real list \<Rightarrow> real list \<times> real list" where
  "search_loop fit inertia_of silhouette [] (inertia, sil_scores) = (inertia, sil_scores)"
| "search_loop fit inertia_of silhouette (k # ks) (inertia, sil_scores) =
     (let kmeans = fit k
      in search_loop fit inertia_of silhouette ks
           (inertia @ [inertia_of kmeans], sil_scores @ [silhouette kmeans]))"

text \<open>\<open>np.argmax\<close>: the index of the first occurrence of the maximum; it raises on an empty array.\<close>

fun argmax_scan :: "real list \<Rightarrow> nat \<Rightarrow> nat \<Rightarrow> real \<Rightarrow> nat" where
  "argmax_scan [] i best_i best = best_i"
| "argmax_scan (x # xs) i best_i best =
     (if x > best then argmax_scan xs (Suc i) i x else argmax_scan xs (Suc i) best_i best)"

definition argmax :: "real list \<Rightarrow> nat option" where
  "argmax xs = (case xs of [] \<Rightarrow> None | x # rest \<Rightarrow> Some (argmax_scan rest 1 0 x))"

record k_search =
  inertia_curve :: "real list"
  optimal_k :: nat

definition determine_k :: "(nat \<Rightarrow> 'm) \<Rightarrow> ('m \<Rightarrow> real) \<Rightarrow> ('m \<Rightarrow> real) \<Rightarrow> k_search option" where
  "determine_k fit inertia_of silhouette =
     (let (inertia, sil_scores) = search_loop fit inertia_of silhouette K_range ([], [])
      in case argmax sil_scores of
           None \<Rightarrow> None
         | Some i \<Rightarrow> if i < length K_range
                     then Some \<lparr>inertia_curve = inertia, optimal_k = K_range ! i\<rparr>
                     else None)"

subsection \<open>Concrete surroundings for evaluation\<close>

text \<open>
  An environment whose model sends every vector to cluster 0 and whose \<open>float\<close>
  rejects every string, and a request with the income and the cost given as numbers.
\<close>

definition example_env :: env where
  "example_env = \<lparr>str_to_float = (\<lambda>s. None), py_str = (\<lambda>j. ''140''), artifacts = Some (\<lambda>v. Some 0)\<rparr>"

definition request_of :: "real \<Rightarrow> real \<Rightarrow> json option \<Rightarrow> request" where
  "request_of i c a = \<lparr>income = Some (JNum i), cost = Some (JNum c), age = a, bedrooms = None\<rparr>"

text \<open>The same environment with a model that sends every vector to cluster 4.\<close>

definition cluster4_env :: env where
  "cluster4_env = \<lparr>str_to_float = (\<lambda>s. None), py_str = (\<lambda>j. ''140''), artifacts = Some (\<lambda>v. Some 4)\<rparr>"

text \<open>A silhouette curve with two equal maxima, at 4 and at 7 clusters.\<close>

definition example_silhouette :: "nat \<Rightarrow> real" where
  "example_silhouette m = (if m = 4 \<or> m = 7 then 1 else 0)"




section \<open>Properties\<close>

subsection \<open>Auxiliary facts about the endpoint\<close>

lemmas example_defs = example_env_def request_of_def

lemmas predict_defs = predict_def parse_inputs_def get_default_def get_none_def validate_age_def
  build_features_def cluster_policy_map_def build_anomalies_def possible_monthly_def AGE_MEDIAN_def Let_def

lemma predict_Inr_elim:
  assumes "predict e data = Inr p"
  obtains assign inc cst beds raw a c m where
    "artifacts e = Some assign"
    "parse_inputs e data = Inr (inc, cst, beds, raw, a)"
    "assign (fst (build_features inc cst (final_age a) beds)) = Some c"
    "cluster_policy_map c = Some m"
    "p = \<lparr>cluster = c,
          cost_burden_ratio = snd (build_features inc cst (final_age a) beds),
          cost_burden_label = (if fst (build_features inc cst (final_age a) beds) ! 4 > 0.3 then ''High'' else ''Affordable''),
          recommendation = label m @ '': '' @ policy m,
          anomaly_flag = (length (build_anomalies e raw (age_anomaly a) (possible_monthly inc cst (snd (build_features inc cst (final_age a) beds)))) > 0),
          anomaly_reasons = build_anomalies e raw (age_anomaly a) (possible_monthly inc cst (snd (build_features inc cst (final_age a) beds)))\<rparr>"
  using assms
  by (auto simp: predict_def Let_def split: option.splits sum.splits prod.splits)

lemma build_features_burden: "snd (build_features inc cst ag beds) = cst * 12 / max inc 1"
  by (simp add: build_features_def Let_def)

lemma build_features_vec4: "fst (build_features inc cst ag beds) ! 4 = cst * 12 / max inc 1"
  by (simp add: build_features_def Let_def)

lemma build_features_vec5: "fst (build_features inc cst ag beds) ! 5 =
   (if cst * 12 / max inc 1 < 0.3 then 1 else if cst * 12 / max inc 1 \<le> 0.5 then 2 else 3)"
  by (simp add: build_features_def Let_def)

subsection \<open>The burden ratio of the request path\<close>

text \<open>
  Claim C2, as the code has it. In every successful answer the burden ratio is
  \<open>cost * 12 / max income 1\<close> for the parsed income and cost. It equals
  \<open>cost * 12 / income\<close> for every income of at least 1 (not for every positive income),
  the divisor is 1 for an income below 1, and the ratio is non-negative when the cost is.
\<close>

theorem burden_ratio_formula:
  assumes "predict e data = Inr p" and "parse_inputs e data = Inr (inc, cst, beds, raw, a)"
  shows "cost_burden_ratio p = cst * 12 / max inc 1
       \<and> (inc \<ge> 1 \<longrightarrow> cost_burden_ratio p = cst * 12 / inc)
       \<and> (inc < 1 \<longrightarrow> cost_burden_ratio p = cst * 12)
       \<and> (cst \<ge> 0 \<longrightarrow> cost_burden_ratio p \<ge> 0)"
proof -
  from assms obtain ag where p: "cost_burden_ratio p = snd (build_features inc cst ag beds)"
    by (auto elim!: predict_Inr_elim)
  show ?thesis unfolding p build_features_burden
    by (auto simp: max_def)
qed

theorem burden_ratio_formula_witness:
  "predict example_env (request_of 45000 1200 (Some (JNum 35))) =
     Inr \<lparr>cluster = 0, cost_burden_ratio = 8 / 25, cost_burden_label = ''High'',
          recommendation = ''Middle-Income Stable: Workforce housing support, rent stabilization, first-time homebuyer assistance.'',
          anomaly_flag = False, anomaly_reasons = []\<rparr>
   \<and> (8 / 25 :: real) = 1200 * 12 / 45000 \<and> (0::real) \<le> 8 / 25"
proof -
  have h1: "predict example_env (request_of 45000 1200 (Some (JNum 35))) =
     Inr \<lparr>cluster = 0, cost_burden_ratio = 8 / 25, cost_burden_label = ''High'',
          recommendation = ''Middle-Income Stable: Workforce housing support, rent stabilization, first-time homebuyer assistance.'',
          anomaly_flag = False, anomaly_reasons = []\<rparr>"
    by (simp add: predict_defs example_defs)
  have h2: "parse_inputs example_env (request_of 45000 1200 (Some (JNum 35))) =
     Inr (45000, 1200, 3, JNum 35, \<lparr>final_age = 35, age_anomaly = False, age_log = []\<rparr>)"
    by (simp add: predict_defs example_defs)
  show ?thesis using burden_ratio_formula [OF h1 h2] h1 by simp
qed

text \<open>
  Claim C2 as stated fails: an income of 0.5 is positive, yet the divisor is 1 and the
  ratio for a cost of 100 is 1200, not 2400; and a cost of -100 gives a negative ratio.
\<close>

theorem burden_ratio_counterexample:
  "(0::real) < 1 / 2 \<and> snd (build_features (1 / 2) 100 35 3) = 1200 \<and> (100 * 12 / (1 / 2) :: real) = 2400
   \<and> snd (build_features 50000 (- 100) 35 3) < 0"
  by (simp add: build_features_def Let_def)

subsection \<open>The cost-burden label\<close>

text \<open>
  Claim C10. In every successful answer the label is \<open>High\<close> when the burden ratio is
  strictly above 0.3 and \<open>Affordable\<close> otherwise; at a ratio of exactly 0.3 the label
  is \<open>Affordable\<close> while the status code in slot 5 of the feature vector is 2.
\<close>

theorem cost_burden_label_two_valued:
  assumes "predict e data = Inr p" and "parse_inputs e data = Inr (inc, cst, beds, raw, a)"
  shows "cost_burden_label p = (if cost_burden_ratio p > 0.3 then ''High'' else ''Affordable'')
       \<and> (cost_burden_ratio p = 0.3 \<longrightarrow>
            cost_burden_label p = ''Affordable''
          \<and> fst (build_features inc cst (final_age a) beds) ! 5 = 2)"
proof -
  define b where "b = cst * 12 / max inc 1"
  from assms have p: "cost_burden_ratio p = b"
     and l: "cost_burden_label p = (if b > 0.3 then ''High'' else ''Affordable'')"
    by (auto elim!: predict_Inr_elim simp: build_features_burden build_features_vec4 b_def)
  have s: "fst (build_features inc cst (final_age a) beds) ! 5 =
      (if b < 0.3 then 1 else if b \<le> 0.5 then 2 else 3)"
    by (simp add: build_features_vec5 b_def)
  show ?thesis unfolding p l s by simp
qed

theorem cost_burden_label_two_valued_witness:
  "predict example_env (request_of 10000 250 None) =
     Inr \<lparr>cluster = 0, cost_burden_ratio = 3 / 10, cost_burden_label = ''Affordable'',
          recommendation = ''Middle-Income Stable: Workforce housing support, rent stabilization, first-time homebuyer assistance.'',
          anomaly_flag = False, anomaly_reasons = []\<rparr>
   \<and> fst (build_features 10000 250 35 3) ! 5 = 2"
proof -
  have h1: "predict example_env (request_of 10000 250 None) =
     Inr \<lparr>cluster = 0, cost_burden_ratio = 3 / 10, cost_burden_label = ''Affordable'',
          recommendation = ''Middle-Income Stable: Workforce housing support, rent stabilization, first-time homebuyer assistance.'',
          anomaly_flag = False, anomaly_reasons = []\<rparr>"
    by (simp add: predict_defs example_defs)
  have h2: "parse_inputs example_env (request_of 10000 250 None) =
     Inr (10000, 250, 3, JNull, \<lparr>final_age = 35, age_anomaly = False, age_log = ''LOG: age_defaulted_missing''\<rparr>)"
    by (simp add: predict_defs example_defs)
  show ?thesis using cost_burden_label_two_valued [OF h1 h2] h1 by simp
qed

subsection \<open>Training corpus against the request path\<close>

text \<open>
  Claim C1, as the code has it. The two paths are separate functions. For an income that
  is 0 or at least 1, the burden ratio of the training corpus is the ratio of the request
  path capped at 3.0, so the two agree exactly when the latter is at most 3.0; the
  affordability status code is the same on both paths.
\<close>

theorem training_ratio_is_capped_inference_ratio:
  assumes "zinc2 = 0 \<or> zinc2 \<ge> 1"
  shows "training_cost_burden_ratio zinc2 costmed = min (snd (build_features zinc2 costmed ag beds)) 3
       \<and> (snd (build_features zinc2 costmed ag beds) \<le> 3 \<longrightarrow>
            training_cost_burden_ratio zinc2 costmed = snd (build_features zinc2 costmed ag beds))
       \<and> training_affordability_status (training_cost_burden_ratio zinc2 costmed)
            = fst (build_features zinc2 costmed ag beds) ! 5"
proof -
  define b where "b = costmed * 12 / max zinc2 1"
  from assms have d: "(if zinc2 = 0 then 1 else zinc2) = max zinc2 1"
    by (auto simp: max_def)
  have t: "training_cost_burden_ratio zinc2 costmed = min b 3"
    unfolding training_cost_burden_ratio_def Let_def d b_def by simp
  have i: "snd (build_features zinc2 costmed ag beds) = b"
    by (simp add: build_features_burden b_def)
  have s: "fst (build_features zinc2 costmed ag beds) ! 5 =
      (if b < 0.3 then 1 else if b \<le> 0.5 then 2 else 3)"
    by (simp add: build_features_vec5 b_def)
  have st: "training_affordability_status (min b 3) = (if b < 0.3 then 1 else if b \<le> 0.5 then 2 else 3)"
    by (auto simp: training_affordability_status_def min_def)
  show ?thesis unfolding t i s st by (simp add: min_def)
qed

theorem training_ratio_is_capped_inference_ratio_witness:
  "training_cost_burden_ratio 45000 1200 = 8 / 25
   \<and> snd (build_features 45000 1200 35 3) = 8 / 25
   \<and> training_affordability_status (training_cost_burden_ratio 45000 1200) = 2
   \<and> fst (build_features 45000 1200 35 3) ! 5 = 2"
proof -
  have h: "(45000::real) = 0 \<or> 45000 \<ge> (1::real)" by simp
  have b: "snd (build_features 45000 1200 35 3) = 8 / 25"
    by (simp add: build_features_def Let_def)
  have v: "fst (build_features 45000 1200 35 3) ! 5 = 2"
    by (simp add: build_features_def Let_def)
  show ?thesis
    using training_ratio_is_capped_inference_ratio [OF h, of 1200 35 3] b v by simp
qed

text \<open>
  Claim C1 as stated fails: for an income of 1300 and a monthly cost of 800 the training
  corpus holds the capped ratio 3.0 and the request path computes 96/13.
\<close>

theorem training_ratio_counterexample:
  "training_cost_burden_ratio 1300 800 = 3
   \<and> snd (build_features 1300 800 35 3) = 96 / 13
   \<and> training_cost_burden_ratio 1300 800 \<noteq> snd (build_features 1300 800 35 3)"
  by (simp add: training_cost_burden_ratio_def build_features_def Let_def)

subsection \<open>The policy lookup\<close>

lemma cluster_policy_map_dom: "cluster_policy_map c \<noteq> None \<longleftrightarrow> c \<in> {0, 1, 2, 3}"
  by (simp add: cluster_policy_map_def)

text \<open>
  Claim C3, as the code has it. A predicted cluster id outside the table ends the request
  with the explicit error \<open>InvalidCluster\<close>, never with a default label or policy. The
  table holds the ids 0 to 3: each of them resolves to its entry, so every id below \<open>k\<close>
  resolves when the model has at most four clusters.
\<close>

theorem unmapped_cluster_is_explicit_error:
  assumes "artifacts e = Some assign"
      and "parse_inputs e data = Inr (inc, cst, beds, raw, a)"
      and "assign (fst (build_features inc cst (final_age a) beds)) = Some c"
  shows "(c \<notin> {0, 1, 2, 3} \<longrightarrow>
            cluster_policy_map c = None \<and> predict e data = Inl (InvalidCluster c))
       \<and> (c \<in> {0, 1, 2, 3} \<longrightarrow>
            (\<exists>m p. cluster_policy_map c = Some m \<and> predict e data = Inr p \<and> cluster p = c
                 \<and> recommendation p = label m @ '': '' @ policy m))
       \<and> (\<forall>k. k \<le> 4 \<and> 0 \<le> c \<and> c < k \<longrightarrow> cluster_policy_map c \<noteq> None)"
proof -
  have split: "predict e data =
      (case cluster_policy_map c of
         None \<Rightarrow> Inl (InvalidCluster c)
       | Some m \<Rightarrow> Inr \<lparr>cluster = c,
            cost_burden_ratio = snd (build_features inc cst (final_age a) beds),
            cost_burden_label = (if fst (build_features inc cst (final_age a) beds) ! 4 > 0.3 then ''High'' else ''Affordable''),
            recommendation = label m @ '': '' @ policy m,
            anomaly_flag = (length (build_anomalies e raw (age_anomaly a) (possible_monthly inc cst (snd (build_features inc cst (final_age a) beds)))) > 0),
            anomaly_reasons = build_anomalies e raw (age_anomaly a) (possible_monthly inc cst (snd (build_features inc cst (final_age a) beds)))\<rparr>)"
    using assms by (simp add: predict_def Let_def split_beta split: option.splits)
  have a1: "c \<notin> {0, 1, 2, 3} \<longrightarrow> cluster_policy_map c = None \<and> predict e data = Inl (InvalidCluster c)"
    using cluster_policy_map_dom [of c] by (auto simp: split)
  have a2: "c \<in> {0, 1, 2, 3} \<longrightarrow>
            (\<exists>m p. cluster_policy_map c = Some m \<and> predict e data = Inr p \<and> cluster p = c
                 \<and> recommendation p = label m @ '': '' @ policy m)"
  proof
    assume "c \<in> {0, 1, 2, 3}"
    then obtain m where m: "cluster_policy_map c = Some m"
      using cluster_policy_map_dom [of c] by auto
    show "\<exists>m p. cluster_policy_map c = Some m \<and> predict e data = Inr p \<and> cluster p = c
                 \<and> recommendation p = label m @ '': '' @ policy m"
      by (simp add: split m)
  qed
  have a3: "\<forall>k. k \<le> 4 \<and> 0 \<le> c \<and> c < k \<longrightarrow> cluster_policy_map c \<noteq> None"
    unfolding cluster_policy_map_dom by auto
  from a1 a2 a3 show ?thesis by blast
qed

theorem unmapped_cluster_is_explicit_error_witness:
  "predict cluster4_env (request_of 45000 1200 (Some (JNum 35))) = Inl (InvalidCluster 4)
   \<and> (\<exists>p. predict example_env (request_of 45000 1200 (Some (JNum 35))) = Inr p
          \<and> recommendation p = ''Middle-Income Stable: Workforce housing support, rent stabilization, first-time homebuyer assistance.'')"
proof -
  have p: "parse_inputs e (request_of 45000 1200 (Some (JNum 35))) =
     Inr (45000, 1200, 3, JNum 35, \<lparr>final_age = 35, age_anomaly = False, age_log = []\<rparr>)" for e
    by (simp add: predict_defs example_defs)
  have a4: "artifacts cluster4_env = Some (\<lambda>v. Some 4)" by (simp add: cluster4_env_def)
  have a0: "artifacts example_env = Some (\<lambda>v. Some 0)" by (simp add: example_env_def)
  have m0: "cluster_policy_map 0 = Some \<lparr>label = ''Middle-Income Stable'',
            policy = ''Workforce housing support, rent stabilization, first-time homebuyer assistance.''\<rparr>"
    by (simp add: cluster_policy_map_def)
  show ?thesis
    using unmapped_cluster_is_explicit_error [OF a4 p, of 4]
          unmapped_cluster_is_explicit_error [OF a0 p, of 0] m0
    by auto
qed

text \<open>
  Claim C3 as stated fails for a model with more than four clusters: 5 is a candidate of
  the search for the cluster count, and the id 4 of such a model has no entry.
\<close>

theorem policy_table_coverage_counterexample:
  "5 \<in> set K_range \<and> (0::int) \<le> 4 \<and> (4::int) < 5 \<and> cluster_policy_map 4 = None"
  by (simp add: K_range_def cluster_policy_map_def)

subsection \<open>Anomaly flags of the endpoint\<close>

text \<open>
  What the endpoint does provide: the monthly-entry flag whenever the heuristic fires,
  and an aggregate flag that is set exactly when the list of reasons is non-empty.
\<close>

lemma monthly_entry_is_flagged:
  assumes "predict e data = Inr p" and "parse_inputs e data = Inr (inc, cst, beds, raw, a)"
      and "inc < 6000" and "cst \<ge> 800" and "cost_burden_ratio p > 2"
  shows "''Potential monthly income entry detected.'' \<in> set (anomaly_reasons p) \<and> anomaly_flag p"
  using assms
  by (auto elim!: predict_Inr_elim simp: build_anomalies_def possible_monthly_def)

lemma anomaly_flag_iff_reasons:
  assumes "predict e data = Inr p"
  shows "anomaly_flag p \<longleftrightarrow> anomaly_reasons p \<noteq> []"
  using assms by (auto elim!: predict_Inr_elim)

text \<open>
  Claim C4 at the request of its scenario, income 1300 and cost 800 with no age. The
  heuristic fires and the request is flagged, but the answer is the flat object of six
  keys: no alternative interpretation for the income 15600 is computed or returned.
\<close>

theorem monthly_mistake_without_alternative:
  "predict example_env (request_of 1300 800 None) =
     Inr \<lparr>cluster = 0, cost_burden_ratio = 96 / 13, cost_burden_label = ''High'',
          recommendation = ''Middle-Income Stable: Workforce housing support, rent stabilization, first-time homebuyer assistance.'',
          anomaly_flag = True,
          anomaly_reasons = [''Potential monthly income entry detected.'']\<rparr>"
  by (simp add: predict_defs example_defs)

text \<open>
  Claim C5 at income 50000, cost 10000, age 35. The burden ratio is 2.4, above 2.0, and
  the endpoint answers with no anomaly at all, whereas \<open>predict_logic\<close> on the same
  input raises the flag for an extremely high cost burden.
\<close>

theorem extreme_burden_not_flagged:
  "predict example_env (request_of 50000 10000 (Some (JNum 35))) =
     Inr \<lparr>cluster = 0, cost_burden_ratio = 12 / 5, cost_burden_label = ''High'',
          recommendation = ''Middle-Income Stable: Workforce housing support, rent stabilization, first-time homebuyer assistance.'',
          anomaly_flag = False, anomaly_reasons = []\<rparr>
   \<and> predict_logic (Some (\<lambda>v. Some 0)) 50000 10000 35 3 =
     Returned \<lparr>logic_cluster = 0, logic_cost_burden_ratio = 12 / 5,
          logic_cost_burden_label = ''Extreme burden'',
          logic_anomaly_flag = True,
          logic_anomaly_reasons = [''Extremely high cost burden (>200%)'']\<rparr>"
  by (simp add: predict_defs example_defs predict_logic_def)

subsection \<open>Age validation\<close>

text \<open>
  For an age that is absent, null, a string or a number that \<open>float\<close> accepts, the
  validation behaves as described: the default without an anomaly when nothing parses,
  the default with an anomaly that echoes the raw value when the parsed age is out of
  range. An integer within the range of a double is read like the float of the same
  value; a larger one raises \<open>OverflowError\<close>, which the inner handler does not catch.
\<close>

lemma py_float_int_as_float:
  assumes "\<bar>n\<bar> < float_overflow_bound"
  shows "py_float e (JInt n) = py_float e (JNum (of_int n))"
  using assms by simp

lemma validate_age_overflow:
  assumes "\<bar>n\<bar> \<ge> float_overflow_bound"
  shows "validate_age e (JInt n) = Inl OverflowError"
  using assms by (simp add: validate_age_def)

lemma validate_age_missing:
  assumes "raw = JNull \<or> (raw = JStr s \<and> str_to_float e s = None)"
  shows "validate_age e raw =
     Inr \<lparr>final_age = AGE_MEDIAN, age_anomaly = False, age_log = ''LOG: age_defaulted_missing''\<rparr>"
  using assms by (auto simp: validate_age_def)

lemma validate_age_out_of_range:
  assumes "py_float e raw = Inr x" and "raw \<noteq> JStr ''''" and "x < 18 \<or> x > 110"
  shows "validate_age e raw =
     Inr \<lparr>final_age = AGE_MEDIAN, age_anomaly = True, age_log = ''LOG: age_out_of_range''\<rparr>"
  using assms by (auto simp: validate_age_def)

lemma age_anomaly_echoes_raw_value:
  assumes "predict e data = Inr p" and "parse_inputs e data = Inr (inc, cst, beds, raw, a)"
      and "age_anomaly a"
  shows "hd (anomaly_reasons p) = ''Age '' @ py_str e raw @ '' invalid (out of range). used median.''
       \<and> anomaly_flag p"
  using assms
  by (auto elim!: predict_Inr_elim simp: build_anomalies_def)

text \<open>
  Claim C6 at an age that is a JSON array. \<open>float\<close> raises \<open>TypeError\<close>, which the
  inner handler for \<open>ValueError\<close> does not catch: the age is not replaced by the
  default and the whole request fails with status 400.
\<close>

theorem array_age_fails_request:
  "validate_age example_env (JArr [JNum 40]) = Inl TypeError
   \<and> predict example_env (request_of 45000 1200 (Some (JArr [JNum 40]))) = Inl RequestFailed
   \<and> http_status RequestFailed = 400"
  by (simp add: predict_defs example_defs)

subsection \<open>Search for the cluster count\<close>

lemma search_loop_maps:
  "search_loop fit inertia_of silhouette ks (inertia, sil_scores) =
     (inertia @ map (\<lambda>k. inertia_of (fit k)) ks, sil_scores @ map (\<lambda>k. silhouette (fit k)) ks)"
  by (induction ks arbitrary: inertia sil_scores) (simp_all add: Let_def)

lemma argmax_scan_first_max:
  assumes "length ys = i" and "best_i < i" and "ys ! best_i = best"
      and "\<forall>j<i. ys ! j \<le> best" and "\<forall>j<best_i. ys ! j < best"
  shows "argmax_scan xs i best_i best < i + length xs
       \<and> (\<forall>j < i + length xs. (ys @ xs) ! j \<le> (ys @ xs) ! argmax_scan xs i best_i best)
       \<and> (\<forall>j < argmax_scan xs i best_i best. (ys @ xs) ! j < (ys @ xs) ! argmax_scan xs i best_i best)"
  using assms
proof (induction xs arbitrary: ys i best_i best)
  case Nil
  then show ?case by simp
next
  case (Cons x xs)
  let ?ys = "ys @ [x]"
  have len: "length ?ys = Suc i" using Cons.prems by simp
  show ?case
  proof (cases "x > best")
    case True
    have a: "i < Suc i" by simp
    have b: "?ys ! i = x" using Cons.prems by (simp add: nth_append)
    have c: "\<forall>j<Suc i. ?ys ! j \<le> x"
      using Cons.prems True by (auto simp: nth_append less_Suc_eq intro: less_imp_le order.trans)
    have d: "\<forall>j<i. ?ys ! j < x"
      using Cons.prems True by (auto simp: nth_append intro: le_less_trans)
    from Cons.IH [OF len a b c d] True show ?thesis by simp
  next
    case False
    have a: "best_i < Suc i" using Cons.prems by simp
    have b: "?ys ! best_i = best" using Cons.prems by (simp add: nth_append)
    have c: "\<forall>j<Suc i. ?ys ! j \<le> best"
      using Cons.prems False by (auto simp: nth_append less_Suc_eq)
    have d: "\<forall>j<best_i. ?ys ! j < best"
      using Cons.prems by (auto simp: nth_append)
    from Cons.IH [OF len a b c d] False show ?thesis by simp
  qed
qed

lemma argmax_first_max:
  assumes "xs \<noteq> []"
  shows "\<exists>r. argmax xs = Some r \<and> r < length xs
           \<and> (\<forall>j < length xs. xs ! j \<le> xs ! r) \<and> (\<forall>j < r. xs ! j < xs ! r)"
proof -
  from assms obtain x rest where xs: "xs = x # rest" by (cases xs) auto
  have "argmax_scan rest 1 0 x < 1 + length rest
       \<and> (\<forall>j < 1 + length rest. ([x] @ rest) ! j \<le> ([x] @ rest) ! argmax_scan rest 1 0 x)
       \<and> (\<forall>j < argmax_scan rest 1 0 x. ([x] @ rest) ! j < ([x] @ rest) ! argmax_scan rest 1 0 x)"
    by (rule argmax_scan_first_max) simp_all
  then show ?thesis by (simp add: xs argmax_def)
qed

lemma K_range_nth: "j < 9 \<Longrightarrow> K_range ! j = j + 2"
  unfolding K_range_def by (subst nth_upt) simp_all

lemma K_range_length: "length K_range = 9"
  by (simp add: K_range_def)

text \<open>
  Claim C9. The search always returns a cluster count; it lies in the range 2 to 10, no
  candidate of the range has a higher silhouette score, every smaller candidate has a
  strictly lower one (ties go to the smallest count), and the count is the same whatever
  the inertia values are. The sample that is scored has at most 10000 rows.
\<close>

theorem optimal_k_maximises_silhouette:
  "\<exists>r. determine_k fit inertia_of silhouette = Some r
      \<and> optimal_k r \<in> {2..10}
      \<and> (\<forall>k\<in>{2..10}. silhouette (fit k) \<le> silhouette (fit (optimal_k r)))
      \<and> (\<forall>k\<in>{2..10}. k < optimal_k r \<longrightarrow> silhouette (fit k) < silhouette (fit (optimal_k r)))
      \<and> (\<forall>other_inertia. map_option optimal_k (determine_k fit other_inertia silhouette) = Some (optimal_k r))
      \<and> sample_size len_X \<le> 10000"
proof -
  define S where "S = map (\<lambda>k. silhouette (fit k)) K_range"
  have lenS: "length S = 9" by (simp add: S_def K_range_length)
  then have "S \<noteq> []" by auto
  from argmax_first_max [OF this] lenS obtain i where
    i: "argmax S = Some i" "i < 9" "\<forall>j<9. S ! j \<le> S ! i" "\<forall>j<i. S ! j < S ! i"
    by auto
  have Snth: "S ! j = silhouette (fit (j + 2))" if "j < 9" for j
    using that by (simp add: S_def K_range_length K_range_nth)
  have dk: "determine_k fit io silhouette =
      Some \<lparr>inertia_curve = map (\<lambda>k. io (fit k)) K_range, optimal_k = i + 2\<rparr>" for io
    using i(1,2) by (simp add: determine_k_def search_loop_maps S_def [symmetric] K_range_length K_range_nth)
  have mx: "\<forall>k\<in>{2..10}. silhouette (fit k) \<le> silhouette (fit (i + 2))"
  proof
    fix k :: nat assume "k \<in> {2..10}"
    then have "k - 2 < 9" "k - 2 + 2 = k" by auto
    with i(2,3) Snth [of "k - 2"] Snth [of i] show "silhouette (fit k) \<le> silhouette (fit (i + 2))"
      by auto
  qed
  have fst: "\<forall>k\<in>{2..10}. k < i + 2 \<longrightarrow> silhouette (fit k) < silhouette (fit (i + 2))"
  proof (intro ballI impI)
    fix k :: nat assume "k \<in> {2..10}" "k < i + 2"
    then have "k - 2 < 9" "k - 2 + 2 = k" "k - 2 < i" by auto
    with i(2,4) Snth [of "k - 2"] Snth [of i] show "silhouette (fit k) < silhouette (fit (i + 2))"
      by auto
  qed
  have rng: "i + 2 \<in> {2..10}" using i(2) by auto
  have smp: "sample_size len_X \<le> 10000" by (simp add: sample_size_def)
  show ?thesis
    using mx fst rng smp by (simp add: dk)
qed

theorem optimal_k_maximises_silhouette_witness:
  "determine_k (\<lambda>k. k) real example_silhouette =
     Some \<lparr>inertia_curve = [2, 3, 4, 5, 6, 7, 8, 9, 10], optimal_k = 4\<rparr>
   \<and> example_silhouette 7 = example_silhouette 4
   \<and> example_silhouette 3 < example_silhouette 4"
proof -
  have ev: "determine_k (\<lambda>k. k) real example_silhouette =
     Some \<lparr>inertia_curve = [2, 3, 4, 5, 6, 7, 8, 9, 10], optimal_k = 4\<rparr>"
    by (simp add: determine_k_def K_range_def upt_rec [of _ "numeral _"] example_silhouette_def argmax_def)
  have "example_silhouette 7 = example_silhouette 4" "example_silhouette 3 < example_silhouette 4"
    by (simp_all add: example_silhouette_def)
  with optimal_k_maximises_silhouette [of "\<lambda>k. k" real example_silhouette] ev
  show ?thesis by auto
qed

subsection \<open>Correlation filter\<close>








subsection \<open>Imputation\<close>














end
